theory Spec2Isabelle
  imports Main
begin

section \<open>Python strings\<close>

text \<open>
  A Python \<open>str\<close> is a sequence of Unicode code points; it is modelled as the list of
  its code points.  \<open>py\<close> turns a literal of the theory into such a list.
\<close>

type_synonym pystr = "nat list"

definition py :: "string \<Rightarrow> pystr" where
  "py s = map of_char s"

text \<open>
  \<open>str.isspace\<close> on one code point, as \<open>str.strip()\<close> without argument uses it: the
  ASCII controls 0x09-0x0D and 0x1C-0x1F, the space, and the Unicode white space
  beyond ASCII.
\<close>

definition isspace :: "nat \<Rightarrow> bool" where
  "isspace c \<longleftrightarrow>
     (9 \<le> c \<and> c \<le> 13) \<or> (28 \<le> c \<and> c \<le> 32) \<or> c = 133 \<or> c = 160 \<or>
     c = 5760 \<or> (8192 \<le> c \<and> c \<le> 8202) \<or> c = 8232 \<or> c = 8233 \<or>
     c = 8239 \<or> c = 8287 \<or> c = 12288"

definition lstrip :: "pystr \<Rightarrow> pystr" where
  "lstrip s = dropWhile isspace s"

definition rstrip :: "pystr \<Rightarrow> pystr" where
  "rstrip s = rev (dropWhile isspace (rev s))"

definition strip :: "pystr \<Rightarrow> pystr" where
  "strip s = rstrip (lstrip s)"

section \<open>The worker object, as the window sees it\<close>

text \<open>
  Of a \<open>requests.Session\<close>, its connections: how many lie idle in the pools of its
  adapters, and how many are in flight, that is taken out of a pool by a request or by
  a streamed response whose body is not yet consumed; and whether \<open>close\<close> was called.
\<close>

record http_session =
  pooled :: nat
  in_flight :: nat
  closed :: bool

definition Session :: http_session where
  "Session = \<lparr>pooled = 0, in_flight = 0, closed = False\<rparr>"

text \<open>
  \<open>Session.close\<close> closes every adapter, and \<open>HTTPAdapter.close\<close> clears its pool
  manager.  That closes the pooled connections; in the words of the library it "will
  not affect in-flight connections".
\<close>

definition Session_close :: "http_session \<Rightarrow> http_session" where
  "Session_close s = s\<lparr>pooled := 0, closed := True\<rparr>"

text \<open>
  \<open>session.post(..., stream=True)\<close> has returned a response: the connection that
  carries it, an idle one of the pool or else a new one, is in flight until the
  response is closed.
\<close>

definition checkout :: "http_session \<Rightarrow> http_session" where
  "checkout s = s\<lparr>pooled := pooled s - 1, in_flight := Suc (in_flight s)\<rparr>"

text \<open>
  \<open>OllamaWorker.__init__\<close> stores the prompt, clears the flag and opens a session.
  \<open>isRunning\<close> is the state of the thread: set by \<open>start()\<close>, cleared when \<open>run\<close>
  has returned.
\<close>

record worker =
  prompt :: pystr
  stop_requested :: bool
  session :: http_session
  isRunning :: bool

definition OllamaWorker :: "pystr \<Rightarrow> worker" where
  "OllamaWorker p =
     \<lparr>prompt = p, stop_requested = False, session = Session, isRunning = False\<rparr>"

definition start :: "worker \<Rightarrow> worker" where
  "start k = k\<lparr>isRunning := True\<rparr>"

text \<open>\<open>run\<close> has entered the \<open>with\<close> statement: the response is there to be read.\<close>

definition reading :: "worker \<Rightarrow> worker" where
  "reading k = k\<lparr>session := checkout (session k)\<rparr>"

text \<open>The thread has ended: \<open>run\<close> has returned.\<close>

definition finish :: "worker \<Rightarrow> worker" where
  "finish k = k\<lparr>isRunning := False\<rparr>"

text \<open>
  \<open>OllamaWorker.stop\<close>: the flag is set, then the session is closed; an exception of
  the close is swallowed.
\<close>

definition stop :: "worker \<Rightarrow> worker" where
  "stop k = k\<lparr>stop_requested := True, session := Session_close (session k)\<rparr>"

section \<open>The chat window\<close>

record bubble =
  text_label :: pystr
  sender :: pystr

definition Bubble :: "pystr \<Rightarrow> pystr \<Rightarrow> bubble" where
  "Bubble t s = \<lparr>text_label = t, sender = s\<rparr>"

datatype icon = send_icon | stop_icon

text \<open>
  The fields of \<open>ChatWindow\<close> that its handlers read or write.  \<open>chat_layout\<close> is the
  list of bubbles in the order they were added; \<open>current_bubble_label\<close> refers to one
  of them, by its position.  \<open>typing_timer\<close> is whether the timer is active.
  \<open>started\<close> is not a field of the class: it logs the prompt of every worker thread
  started so far, so that the creation of a worker can be observed.
\<close>

record ChatWindow =
  chat_layout :: "bubble list"
  input_line :: pystr
  send_btn :: icon
  typing_timer :: bool
  pending_text :: pystr
  typing_index :: nat
  current_bubble_label :: "nat option"
  ai_worker :: "worker option"
  ai_thinking :: bool
  started :: "pystr list"

definition add_bubble :: "pystr \<Rightarrow> pystr \<Rightarrow> ChatWindow \<Rightarrow> ChatWindow" where
  "add_bubble t s w = w\<lparr>chat_layout := chat_layout w @ [Bubble t s]\<rparr>"

definition setText :: "nat \<Rightarrow> pystr \<Rightarrow> bubble list \<Rightarrow> bubble list" where
  "setText i t bs = (if i < length bs then bs[i := (bs ! i)\<lparr>text_label := t\<rparr>] else bs)"

text \<open>The stop branch of \<open>handle_send_or_stop\<close> (taken when \<open>ai_thinking\<close>).\<close>

definition stop_branch :: "ChatWindow \<Rightarrow> ChatWindow" where
  "stop_branch w =
     (let w1 = (case ai_worker w of
                  Some k \<Rightarrow> if isRunning k then w\<lparr>ai_worker := Some (stop k)\<rparr> else w
                | None \<Rightarrow> w);
          w2 = w1\<lparr>typing_timer := False\<rparr>;
          w3 = (case current_bubble_label w2 of
                  Some i \<Rightarrow> w2\<lparr>chat_layout := setText i (pending_text w2) (chat_layout w2)\<rparr>
                | None \<Rightarrow> w2)
      in w3\<lparr>ai_thinking := False, send_btn := send_icon\<rparr>)"

text \<open>The send branch (taken otherwise).\<close>

definition send_branch :: "ChatWindow \<Rightarrow> ChatWindow" where
  "send_branch w =
     (let msg = strip (input_line w) in
      if msg = [] then w
      else
        let w1 = add_bubble msg (py ''User'') w;
            w2 = w1\<lparr>input_line := []\<rparr>;
            w3 = w2\<lparr>ai_worker := Some (start (OllamaWorker msg)),
                    started := started w2 @ [msg]\<rparr>
        in w3\<lparr>ai_thinking := True, send_btn := stop_icon\<rparr>)"

definition handle_send_or_stop :: "ChatWindow \<Rightarrow> ChatWindow" where
  "handle_send_or_stop w = (if ai_thinking w then stop_branch w else send_branch w)"

text \<open>
  \<open>start_typing_animation\<close>, the slot of \<open>result_ready\<close>.  The new bubble is created
  with the text \<open>...\<close>, appended, and its label is then emptied.
\<close>

definition start_typing_animation :: "pystr \<Rightarrow> ChatWindow \<Rightarrow> ChatWindow" where
  "start_typing_animation t w =
     (if t = [] then w\<lparr>ai_thinking := False, send_btn := send_icon\<rparr>
      else
        let i = length (chat_layout w);
            w1 = w\<lparr>current_bubble_label := Some i,
                   chat_layout := chat_layout w @ [Bubble (py ''...'') (py ''AI'')]\<rparr>;
            w2 = w1\<lparr>pending_text := t, typing_index := 0\<rparr>;
            w3 = w2\<lparr>chat_layout := setText i [] (chat_layout w2)\<rparr>
        in w3\<lparr>typing_timer := True\<rparr>)"

text \<open>\<open>label.setText(label.text() + c)\<close> on the label of the bubble at position \<open>i\<close>.\<close>

definition appendText :: "nat \<Rightarrow> nat \<Rightarrow> bubble list \<Rightarrow> bubble list" where
  "appendText i c bs =
     (if i < length bs then bs[i := (bs ! i)\<lparr>text_label := text_label (bs ! i) @ [c]\<rparr>] else bs)"

text \<open>
  \<open>type_next_char\<close>, the slot of the timer.  With no current bubble the first branch
  raises \<open>AttributeError\<close>, which is the result \<open>None\<close>.
\<close>

definition type_next_char :: "ChatWindow \<Rightarrow> ChatWindow option" where
  "type_next_char w =
     (if typing_index w < length (pending_text w) then
        (case current_bubble_label w of
           None \<Rightarrow> None
         | Some i \<Rightarrow>
             Some (w\<lparr>chat_layout :=
                        appendText i (pending_text w ! typing_index w) (chat_layout w),
                      typing_index := typing_index w + 1\<rparr>))
      else Some (w\<lparr>typing_timer := False, ai_thinking := False, send_btn := send_icon\<rparr>))"

text \<open>The timer fires \<open>n\<close> times.\<close>

fun ticks :: "nat \<Rightarrow> ChatWindow \<Rightarrow> ChatWindow option" where
  "ticks 0 w = Some w"
| "ticks (Suc n) w = (case ticks n w of None \<Rightarrow> None | Some w' \<Rightarrow> type_next_char w')"

text \<open>The slot of \<open>error\<close>: the lambda connected in \<open>handle_send_or_stop\<close>.\<close>

definition on_error :: "pystr \<Rightarrow> ChatWindow \<Rightarrow> ChatWindow" where
  "on_error e w = add_bubble (py ''Error: '' @ e) (py ''AI'') w"

section \<open>The request: \<open>OllamaWorker.run\<close>\<close>

type_synonym bytes = "char list"

datatype json =
    JNull
  | JBool bool
  | JNumber int
  | JString pystr
  | JArray "json list"
  | JObject "(pystr \<times> json) list"

text \<open>\<open>isinstance(d, dict)\<close> and \<open>isinstance(d, str)\<close> of a parsed value.\<close>

fun is_dict :: "json \<Rightarrow> bool" where
  "is_dict (JObject kvs) = True"
| "is_dict d = False"

fun is_str :: "json \<Rightarrow> bool" where
  "is_str (JString s) = True"
| "is_str d = False"

text \<open>
  The exceptions that the calls of \<open>run\<close> raise, each with its message.  All of them
  are subclasses of \<open>Exception\<close>; an interrupt of the interpreter, which is not, is
  outside the model.  \<open>str\<close> of a \<open>KeyError\<close> is the \<open>repr\<close> of the key,
  which for the two keys that \<open>run\<close> looks up is the key between single quotes.
\<close>

datatype exc =
    RequestException pystr
  | HTTPError pystr
  | UnicodeDecodeError pystr
  | JSONDecodeError pystr
  | KeyError pystr
  | TypeError pystr

fun str_exc :: "exc \<Rightarrow> pystr" where
  "str_exc (RequestException m) = m"
| "str_exc (HTTPError m) = m"
| "str_exc (UnicodeDecodeError m) = m"
| "str_exc (JSONDecodeError m) = m"
| "str_exc (KeyError k) = [39] @ k @ [39]"
| "str_exc (TypeError m) = m"

text \<open>
  What \<open>run\<close> takes from its libraries and cannot be read off the repository: the
  decoder of UTF-8, the parser of JSON (an object is returned as the items of the
  dict), and the wording of three messages.
\<close>

record lib =
  utf8_decode :: "bytes \<Rightarrow> exc + pystr"
  json_loads :: "pystr \<Rightarrow> exc + json"
  http_error_msg :: "nat \<Rightarrow> pystr"
  subscript_msg :: "json \<Rightarrow> pystr"
  emit_msg :: "json \<Rightarrow> pystr"

text \<open>
  A response whose headers have arrived: its status, and what iterating over
  \<open>r.iter_content(chunk_size=1024)\<close> yields, in order (\<open>Inl e\<close>: the iteration raises
  \<open>e\<close> there).
\<close>

record response =
  status_code :: nat
  iter_content :: "(exc + bytes) list"

text \<open>The places where \<open>run\<close> reads \<open>self.stop_requested\<close>.\<close>

datatype checkpoint = BeforeCall | AfterHeaders | AfterChunk nat | BeforeEmit | InHandler

text \<open>
  The surroundings of one execution of \<open>run\<close>: the value of the flag, which the
  foreground thread sets, as read at each checkpoint, and the result of
  \<open>session.post\<close>.
\<close>

record env =
  stop_at :: "checkpoint \<Rightarrow> bool"
  post_result :: "exc + response"

text \<open>
  What \<open>run\<close> does, in order: a read of the flag with the value found; the POST with
  its URL, JSON body, \<open>stream\<close> and \<open>timeout\<close>; \<open>raise_for_status\<close>; a request for the
  next chunk of at most so many bytes; closing the response; the two signals.
\<close>

datatype action =
    Check checkpoint bool
  | Post pystr json bool nat
  | RaiseForStatus
  | NextChunk nat
  | Close
  | EmitResult pystr
  | EmitError pystr

definition MODEL_NAME :: pystr where
  "MODEL_NAME = py ''deepseek-r1:32b''"

definition OLLAMA_URL :: pystr where
  "OLLAMA_URL = py ''http://localhost:11434/api/chat''"

definition payload :: "pystr \<Rightarrow> json" where
  "payload p =
     JObject [(py ''model'', JString MODEL_NAME),
              (py ''messages'',
                 JArray [JObject [(py ''role'', JString (py ''user'')),
                                  (py ''content'', JString p)] ]),
              (py ''stream'', JBool False)]"

text \<open>
  \<open>Response.raise_for_status\<close> of the requests library raises \<open>HTTPError\<close> for a
  status from 400 to 599 and returns otherwise.
\<close>

definition raise_for_status :: "lib \<Rightarrow> response \<Rightarrow> exc option" where
  "raise_for_status L r =
     (if 400 \<le> status_code r \<and> status_code r < 600
      then Some (HTTPError (http_error_msg L (status_code r))) else None)"

text \<open>\<open>d[k]\<close> for a string \<open>k\<close>: only a dict can be subscripted with it.\<close>

fun subscript :: "lib \<Rightarrow> json \<Rightarrow> pystr \<Rightarrow> exc + json" where
  "subscript L (JObject kvs) k =
     (case map_of kvs k of None \<Rightarrow> Inl (KeyError k) | Some v \<Rightarrow> Inr v)"
| "subscript L d k = Inl (TypeError (subscript_msg L d))"

text \<open>
  The argument of a \<open>pyqtSignal(str)\<close>: a \<open>str\<close> is passed on, \<open>None\<close> is taken for
  the empty string, and any other value is refused with a \<open>TypeError\<close>.
\<close>

fun emit_arg :: "lib \<Rightarrow> json \<Rightarrow> exc + pystr" where
  "emit_arg L (JString s) = Inr s"
| "emit_arg L JNull = Inr []"
| "emit_arg L d = Inl (TypeError (emit_msg L d))"

text \<open>\<open>data["message"]["content"]\<close>, as the argument of \<open>result_ready.emit\<close>.\<close>

definition content_of :: "lib \<Rightarrow> json \<Rightarrow> exc + pystr" where
  "content_of L data =
     (case subscript L data (py ''message'') of
        Inl e \<Rightarrow> Inl e
      | Inr m \<Rightarrow>
          (case subscript L m (py ''content'') of
             Inl e \<Rightarrow> Inl e
           | Inr c \<Rightarrow> emit_arg L c))"

text \<open>
  The loop over the chunks.  The result is the exception raised by the iteration, or
  \<open>None\<close> when the loop returned from \<open>run\<close> at a set flag, or the chunks kept.
\<close>

fun iter_chunks ::
  "(checkpoint \<Rightarrow> bool) \<Rightarrow> nat \<Rightarrow> (exc + bytes) list \<Rightarrow> bytes list \<Rightarrow>
     action list \<times> (exc + bytes list option)" where
  "iter_chunks f i [] chunks = ([NextChunk 1024], Inr (Some chunks))"
| "iter_chunks f i (Inl e # rest) chunks = ([NextChunk 1024], Inl e)"
| "iter_chunks f i (Inr chunk # rest) chunks =
     (if f (AfterChunk i) then ([NextChunk 1024, Check (AfterChunk i) True, Close], Inr None)
      else
        let (t, x) = iter_chunks f (Suc i) rest (if chunk \<noteq> [] then chunks @ [chunk] else chunks)
        in (NextChunk 1024 # Check (AfterChunk i) False # t, x))"

text \<open>
  What follows the loop: decoding, parsing, the last read of the flag and the emission.
  \<open>Some e\<close> is the exception raised, \<open>None\<close> a normal end.
\<close>

definition after_loop :: "lib \<Rightarrow> (checkpoint \<Rightarrow> bool) \<Rightarrow> bytes list \<Rightarrow> action list \<times> exc option" where
  "after_loop L f chunks =
     (case utf8_decode L (concat chunks) of
        Inl e \<Rightarrow> ([], Some e)
      | Inr s \<Rightarrow>
          (case json_loads L s of
             Inl e \<Rightarrow> ([], Some e)
           | Inr data \<Rightarrow>
               if f BeforeEmit then ([Check BeforeEmit True], None)
               else
                 (case content_of L data of
                    Inl e \<Rightarrow> ([Check BeforeEmit False], Some e)
                  | Inr c \<Rightarrow> ([Check BeforeEmit False, EmitResult c], None))))"

text \<open>The body of the \<open>with\<close> statement, for the response \<open>r\<close>.\<close>

definition with_body :: "lib \<Rightarrow> (checkpoint \<Rightarrow> bool) \<Rightarrow> response \<Rightarrow> action list \<times> exc option" where
  "with_body L f r =
     (if f AfterHeaders then ([Check AfterHeaders True, Close], None)
      else
        (case raise_for_status L r of
           Some e \<Rightarrow> ([Check AfterHeaders False, RaiseForStatus], Some e)
         | None \<Rightarrow>
             let (t, x) = iter_chunks f 0 (iter_content r) []
             in (case x of
                   Inl e \<Rightarrow> (Check AfterHeaders False # RaiseForStatus # t, Some e)
                 | Inr None \<Rightarrow> (Check AfterHeaders False # RaiseForStatus # t, None)
                 | Inr (Some chunks) \<Rightarrow>
                     let (t', y) = after_loop L f chunks
                     in (Check AfterHeaders False # RaiseForStatus # t @ t', y))))"

text \<open>
  The \<open>try\<close> block.  Leaving the \<open>with\<close> statement closes the response, with or without
  an exception.  Closing a response is taken not to raise.
\<close>

definition try_block :: "lib \<Rightarrow> env \<Rightarrow> pystr \<Rightarrow> action list \<times> exc option" where
  "try_block L E p =
     (case post_result E of
        Inl e \<Rightarrow> ([Post OLLAMA_URL (payload p) True 600], Some e)
      | Inr r \<Rightarrow>
          let (t, x) = with_body L (stop_at E) r
          in (Post OLLAMA_URL (payload p) True 600 # t @ [Close], x))"

text \<open>The \<open>except Exception\<close> clause.\<close>

definition handler :: "(checkpoint \<Rightarrow> bool) \<Rightarrow> exc \<Rightarrow> action list" where
  "handler f e =
     (if f InHandler then [Check InHandler True]
      else [Check InHandler False, EmitError (str_exc e)])"

definition run :: "lib \<Rightarrow> env \<Rightarrow> pystr \<Rightarrow> action list" where
  "run L E p =
     (if stop_at E BeforeCall then [Check BeforeCall True]
      else
        let (t, x) = try_block L E p
        in Check BeforeCall False # t @ (case x of None \<Rightarrow> [] | Some e \<Rightarrow> handler (stop_at E) e))"

text \<open>The signals emitted, the flag reads that found the flag set, the requests sent.\<close>

fun is_emit :: "action \<Rightarrow> bool" where
  "is_emit (EmitResult s) = True"
| "is_emit (EmitError s) = True"
| "is_emit a = False"

fun is_stop :: "action \<Rightarrow> bool" where
  "is_stop (Check c b) = b"
| "is_stop a = False"

fun is_post :: "action \<Rightarrow> bool" where
  "is_post (Post u j s t) = True"
| "is_post a = False"

fun is_read :: "action \<Rightarrow> bool" where
  "is_read (NextChunk n) = True"
| "is_read a = False"

definition emitted :: "action list \<Rightarrow> action list" where
  "emitted t = filter is_emit t"

text \<open>
  The connections made in \<open>handle_send_or_stop\<close>: \<open>result_ready\<close> goes to
  \<open>start_typing_animation\<close>, \<open>error\<close> to the lambda that adds a bubble.  Nothing
  else that \<open>run\<close> does reaches the window.
\<close>

definition deliver :: "action \<Rightarrow> ChatWindow \<Rightarrow> ChatWindow" where
  "deliver a w =
     (case a of
        EmitResult t \<Rightarrow> start_typing_animation t w
      | EmitError e \<Rightarrow> on_error e w
      | _ \<Rightarrow> w)"

text \<open>
  No animation is pending: the timer is not active, and the bubble that
  \<open>current_bubble_label\<close> refers to, if any, shows \<open>pending_text\<close> in full.  This is
  the state in which the window is left by the end of an animation and by a stop.
\<close>

definition settled :: "ChatWindow \<Rightarrow> bool" where
  "settled w \<longleftrightarrow>
     \<not> typing_timer w \<and>
     (case current_bubble_label w of
        None \<Rightarrow> True
      | Some i \<Rightarrow> i < length (chat_layout w) \<and> text_label (chat_layout w ! i) = pending_text w)"

section \<open>Concrete windows, responses and libraries\<close>

text \<open>The window as \<open>ChatWindow.__init__\<close> leaves it.\<close>

definition ChatWindow_init :: ChatWindow where
  "ChatWindow_init =
     \<lparr>chat_layout = [], input_line = [], send_btn = send_icon, typing_timer = False,
      pending_text = [], typing_index = 0, current_bubble_label = None,
      ai_worker = None, ai_thinking = False, started = []\<rparr>"

text \<open>The window after \<open>hi\<close> was sent from the initial window.\<close>

definition busy_window :: ChatWindow where
  "busy_window = handle_send_or_stop (ChatWindow_init\<lparr>input_line := py ''hi''\<rparr>)"

text \<open>The busy window once its worker reads the response to its request.\<close>

definition streaming_window :: ChatWindow where
  "streaming_window = busy_window\<lparr>ai_worker := map_option reading (ai_worker busy_window)\<rparr>"


text \<open>
  The busy window once \<open>run\<close> of its worker has returned, and that window after the
  result \<open>hello\<close> was delivered.
\<close>

definition answered_window :: ChatWindow where
  "answered_window = busy_window\<lparr>ai_worker := map_option finish (ai_worker busy_window)\<rparr>"

definition typing_window :: ChatWindow where
  "typing_window = start_typing_animation (py ''hello'') answered_window"

text \<open>The initial window with a blank and with a padded input line.\<close>

definition blank_window :: ChatWindow where
  "blank_window = ChatWindow_init\<lparr>input_line := [32, 9, 12288]\<rparr>"


text \<open>Three courses of the flag: never set, set from the start, set while the second
  chunk is awaited.\<close>

definition no_stop :: "checkpoint \<Rightarrow> bool" where
  "no_stop c = False"

definition stop_at_start :: "checkpoint \<Rightarrow> bool" where
  "stop_at_start c = True"

fun stop_mid_body :: "checkpoint \<Rightarrow> bool" where
  "stop_mid_body BeforeCall = False"
| "stop_mid_body AfterHeaders = False"
| "stop_mid_body (AfterChunk i) = (1 \<le> i)"
| "stop_mid_body BeforeEmit = True"
| "stop_mid_body InHandler = True"

text \<open>
  A stand-in for the libraries, right on the bodies used below: bytes below 128 decode
  to themselves and the byte 255 does not decode; two documents parse.
\<close>

definition mock_decode :: "bytes \<Rightarrow> exc + pystr" where
  "mock_decode b =
     (if \<forall>c \<in> set b. (of_char c :: nat) < 128 then Inr (map of_char b)
      else Inl (UnicodeDecodeError (py ''invalid start byte'')))"

definition hello_object :: json where
  "hello_object = JObject [(py ''message'', JObject [(py ''content'', JString (py ''hello''))])]"

definition mock_loads :: "pystr \<Rightarrow> exc + json" where
  "mock_loads s =
     (if s = py ''{\"message\":{\"content\":\"hello\"}}'' then Inr hello_object
      else if s = py ''{\"message\":{\"content\":null}}''
        then Inr (JObject [(py ''message'', JObject [(py ''content'', JNull)])])
      else if s = py ''{\"message\":{\"content\":5}}''
        then Inr (JObject [(py ''message'', JObject [(py ''content'', JNumber 5)])])
      else if s = py ''{\"message\":{}}'' then Inr (JObject [(py ''message'', JObject [])])
      else if s = py ''{\"message\":7}'' then Inr (JObject [(py ''message'', JNumber 7)])
      else if s = py ''{}'' then Inr (JObject [])
      else if s = py ''8'' then Inr (JNumber 8)
      else Inl (JSONDecodeError (py ''Expecting value'')))"

definition mock_lib :: lib where
  "mock_lib =
     \<lparr>utf8_decode = mock_decode, json_loads = mock_loads,
      http_error_msg = (\<lambda>n. py ''Server Error''),
      subscript_msg = (\<lambda>d. py ''not subscriptable''),
      emit_msg = (\<lambda>d. py ''unexpected type'')\<rparr>"

definition hello_chunks :: "bytes list" where
  "hello_chunks = [''{\"message\":{\"content\":'', [], ''\"hello\"}}'']"

definition response_200 :: response where
  "response_200 = \<lparr>status_code = 200, iter_content = map Inr hello_chunks\<rparr>"

definition response_300 :: response where
  "response_300 = \<lparr>status_code = 300, iter_content = map Inr hello_chunks\<rparr>"

definition response_500 :: response where
  "response_500 = \<lparr>status_code = 500, iter_content = map Inr hello_chunks\<rparr>"

definition response_broken :: response where
  "response_broken =
     \<lparr>status_code = 200,
      iter_content = map Inr [''{\"message\":''] @ [Inl (RequestException (py ''Connection broken''))]\<rparr>"

definition invalid_utf8 :: bytes where
  "invalid_utf8 = [CHR 0xFF]"

definition response_bad_utf8 :: response where
  "response_bad_utf8 = \<lparr>status_code = 200, iter_content = map Inr [invalid_utf8]\<rparr>"

definition response_bad_json :: response where
  "response_bad_json = \<lparr>status_code = 200, iter_content = map Inr [''nonsense'']\<rparr>"

definition response_no_message :: response where
  "response_no_message = \<lparr>status_code = 200, iter_content = map Inr [''{}'']\<rparr>"

text \<open>The response with status 200 whose body arrives as one chunk.\<close>

definition response_of :: "bytes \<Rightarrow> response" where
  "response_of b = \<lparr>status_code = 200, iter_content = map Inr [b]\<rparr>"

definition body_null :: bytes where
  "body_null = ''{\"message\":{\"content\":null}}''"

definition body_number :: bytes where
  "body_number = ''{\"message\":{\"content\":5}}''"

definition body_no_content :: bytes where
  "body_no_content = ''{\"message\":{}}''"

definition body_message_number :: bytes where
  "body_message_number = ''{\"message\":7}''"

definition body_bare_number :: bytes where
  "body_bare_number = ''8''"

definition env_of :: "(checkpoint \<Rightarrow> bool) \<Rightarrow> response \<Rightarrow> env" where
  "env_of f r = \<lparr>stop_at = f, post_result = Inr r\<rparr>"

definition env_refused :: env where
  "env_refused =
     \<lparr>stop_at = no_stop, post_result = Inl (RequestException (py ''Connection refused''))\<rparr>"

section \<open>Stripping\<close>

lemma strip_blank:
  assumes "\<forall>c \<in> set s. isspace c"
  shows "strip s = []"
proof -
  have l: "lstrip s = []"
    using assms by (simp add: lstrip_def)
  show ?thesis
    unfolding strip_def l by (simp add: rstrip_def)
qed




section \<open>The handlers of the window, field by field\<close>

lemma stop_branch_fields:
  "started (stop_branch w) = started w"
  "input_line (stop_branch w) = input_line w"
  "length (chat_layout (stop_branch w)) = length (chat_layout w)"
  "map sender (chat_layout (stop_branch w)) = map sender (chat_layout w)"
  "\<not> ai_thinking (stop_branch w)"
  "send_btn (stop_branch w) = send_icon"
  "\<not> typing_timer (stop_branch w)"
  "pending_text (stop_branch w) = pending_text w"
  by (auto simp: stop_branch_def Let_def setText_def map_update list_eq_iff_nth_eq nth_list_update split: option.splits)


lemma start_typing_fields:
  assumes "t \<noteq> []"
  shows "chat_layout (start_typing_animation t w) = chat_layout w @ [Bubble [] (py ''AI'')]"
    and "current_bubble_label (start_typing_animation t w) = Some (length (chat_layout w))"
    and "pending_text (start_typing_animation t w) = t"
    and "ai_thinking (start_typing_animation t w) = ai_thinking w"
    and "started (start_typing_animation t w) = started w"
    and "input_line (start_typing_animation t w) = input_line w"
    and "typing_timer (start_typing_animation t w)"
  using assms by (simp_all add: start_typing_animation_def Let_def setText_def Bubble_def)

lemma start_typing_animation_eq:
  assumes "t \<noteq> []"
  shows "start_typing_animation t w =
     w\<lparr>current_bubble_label := Some (length (chat_layout w)),
       chat_layout := chat_layout w @ [\<lparr>text_label = [], sender = py ''AI''\<rparr>],
       pending_text := t, typing_index := 0, typing_timer := True\<rparr>"
  using assms by (simp add: start_typing_animation_def Let_def setText_def Bubble_def)

lemma ticks_typing:
  assumes "t \<noteq> []" and "n \<le> length t"
  shows "ticks n (start_typing_animation t w) =
     Some (w\<lparr>current_bubble_label := Some (length (chat_layout w)),
             chat_layout := chat_layout w @ [\<lparr>text_label = take n t, sender = py ''AI''\<rparr>],
             pending_text := t, typing_index := n, typing_timer := True\<rparr>)"
  using assms(2)
proof (induction n)
  case 0
  show ?case using assms(1) by (simp add: start_typing_animation_eq)
next
  case (Suc n)
  then have n: "n < length t" by simp
  with Suc show ?case
    by (simp add: type_next_char_def appendText_def take_Suc_conv_app_nth)
qed

lemma busy_window_eq:
  "busy_window =
     \<lparr>chat_layout = [Bubble (py ''hi'') (py ''User'')], input_line = [], send_btn = stop_icon,
      typing_timer = False, pending_text = [], typing_index = 0, current_bubble_label = None,
      ai_worker = Some (start (OllamaWorker (py ''hi''))), ai_thinking = True,
      started = [py ''hi'']\<rparr>"
  by (simp add: busy_window_def handle_send_or_stop_def send_branch_def ChatWindow_init_def
        add_bubble_def Let_def py_def strip_def rstrip_def lstrip_def isspace_def)

section \<open>The trace of \<open>run\<close>\<close>

lemma iter_chunks_no_emit: "filter is_emit (fst (iter_chunks f i cs acc)) = []"
  by (induction f i cs acc rule: iter_chunks.induct) (auto split: prod.splits)

lemma iter_chunks_stop:
  "(\<exists>a \<in> set (fst (iter_chunks f i cs acc)). is_stop a) \<longleftrightarrow> snd (iter_chunks f i cs acc) = Inr None"
  by (induction f i cs acc rule: iter_chunks.induct) (auto split: prod.splits)

lemma after_loop_stop:
  "\<exists>a \<in> set (fst (after_loop L f chunks)). is_stop a \<Longrightarrow>
     snd (after_loop L f chunks) = None \<and> filter is_emit (fst (after_loop L f chunks)) = []"
  by (auto simp: after_loop_def split: sum.splits if_splits)

lemma after_loop_exc:
  "after_loop L f chunks = (t, Some e) \<Longrightarrow> filter is_emit t = []"
  by (auto simp: after_loop_def split: sum.splits if_splits)

lemma with_body_stop:
  assumes "\<exists>a \<in> set (fst (with_body L f r)). is_stop a"
  shows "snd (with_body L f r) = None \<and> filter is_emit (fst (with_body L f r)) = []"
proof (cases "f AfterHeaders")
  case True
  then show ?thesis by (simp add: with_body_def)
next
  case False
  show ?thesis
  proof (cases "raise_for_status L r")
    case (Some e)
    with False assms show ?thesis by (simp add: with_body_def)
  next
    case None
    obtain t x where it: "iter_chunks f 0 (iter_content r) [] = (t, x)"
      by (cases "iter_chunks f 0 (iter_content r) []")
    have ne: "filter is_emit t = []"
      using iter_chunks_no_emit [of f 0 "iter_content r" "[]"] it by simp
    have st: "(\<exists>a \<in> set t. is_stop a) \<longleftrightarrow> x = Inr None"
      using iter_chunks_stop [of f 0 "iter_content r" "[]"] it by simp
    show ?thesis
    proof (cases x)
      case (Inl e)
      with False None it st assms show ?thesis by (simp add: with_body_def)
    next
      case (Inr y)
      show ?thesis
      proof (cases y)
        case None2: None
        with Inr False None it ne show ?thesis by (simp add: with_body_def)
      next
        case (Some chunks)
        obtain t' y' where al: "after_loop L f chunks = (t', y')"
          by (cases "after_loop L f chunks")
        from Some Inr st have "\<not> (\<exists>a \<in> set t. is_stop a)" by simp
        with assms Some Inr False None it al have "\<exists>a \<in> set t'. is_stop a"
          by (auto simp: with_body_def)
        with after_loop_stop [of L f chunks] al have "y' = None \<and> filter is_emit t' = []"
          by simp
        with Some Inr False None it al ne show ?thesis by (simp add: with_body_def)
      qed
    qed
  qed
qed

lemma with_body_exc:
  assumes "snd (with_body L f r) = Some e"
  shows "filter is_emit (fst (with_body L f r)) = []"
  using assms iter_chunks_no_emit [of f 0 "iter_content r" "[]"]
  by (auto simp: with_body_def split: if_splits option.splits prod.splits sum.splits
           dest: after_loop_exc)

lemma try_block_stop:
  assumes "\<exists>a \<in> set (fst (try_block L E p)). is_stop a"
  shows "snd (try_block L E p) = None \<and> filter is_emit (fst (try_block L E p)) = []"
proof (cases "post_result E")
  case (Inl e)
  with assms show ?thesis by (simp add: try_block_def)
next
  case (Inr r)
  obtain t x where wb: "with_body L (stop_at E) r = (t, x)"
    by (cases "with_body L (stop_at E) r")
  with assms Inr have "\<exists>a \<in> set t. is_stop a" by (auto simp: try_block_def)
  with with_body_stop [of L "stop_at E" r] wb have "x = None \<and> filter is_emit t = []" by simp
  with Inr wb show ?thesis by (simp add: try_block_def)
qed

lemma try_block_exc:
  assumes "snd (try_block L E p) = Some e"
  shows "filter is_emit (fst (try_block L E p)) = []"
proof (cases "post_result E")
  case (Inl e)
  then show ?thesis by (simp add: try_block_def)
next
  case (Inr r)
  obtain t x where wb: "with_body L (stop_at E) r = (t, x)"
    by (cases "with_body L (stop_at E) r")
  with assms Inr have "x = Some e" by (simp add: try_block_def)
  with with_body_exc [of L "stop_at E" r e] wb have "filter is_emit t = []" by simp
  with Inr wb show ?thesis by (simp add: try_block_def)
qed

lemma concat_nonempty: "concat (filter (\<lambda>c. c \<noteq> []) bs) = concat bs"
  by (induction bs) auto

lemma iter_chunks_all:
  assumes "\<forall>i. \<not> f (AfterChunk i)"
  shows "snd (iter_chunks f i (map Inr bs) acc) = Inr (Some (acc @ filter (\<lambda>c. c \<noteq> []) bs))"
  using assms by (induction bs arbitrary: i acc) (auto simp: split_def Let_def)

lemma iter_chunks_raise:
  assumes "\<forall>i. \<not> f (AfterChunk i)"
  shows "snd (iter_chunks f i (map Inr bs @ Inl e # rest) acc) = Inl e"
  using assms by (induction bs arbitrary: i acc) (auto simp: split_def Let_def)

lemma run_raise:
  assumes "\<forall>c. \<not> stop_at E c" and "snd (try_block L E p) = Some e"
  shows "emitted (run L E p) = [EmitError (str_exc e)]"
proof -
  obtain t where tb: "try_block L E p = (t, Some e)"
    using assms(2) by (cases "try_block L E p") simp
  with try_block_exc [of L E p e] have "filter is_emit t = []" by simp
  with tb assms(1) show ?thesis by (simp add: run_def emitted_def handler_def)
qed

lemma try_block_post_raise:
  "post_result E = Inl e \<Longrightarrow> snd (try_block L E p) = Some e"
  by (simp add: try_block_def)

lemma try_block_with:
  "post_result E = Inr r \<Longrightarrow> snd (try_block L E p) = snd (with_body L (stop_at E) r)"
  by (simp add: try_block_def split_def Let_def)

lemma with_body_status:
  "\<not> f AfterHeaders \<Longrightarrow> raise_for_status L r = Some e \<Longrightarrow> snd (with_body L f r) = Some e"
  by (simp add: with_body_def)

lemma with_body_iter_raise:
  assumes "\<forall>c. \<not> f c" and "raise_for_status L r = None"
    and "iter_content r = map Inr bs @ Inl e # rest"
  shows "snd (with_body L f r) = Some e"
proof -
  have "snd (iter_chunks f 0 (iter_content r) []) = Inl e"
    using assms(1,3) iter_chunks_raise [of f 0 bs e rest "[]"] by simp
  then show ?thesis
    using assms(1,2) by (simp add: with_body_def split_def Let_def)
qed

lemma with_body_after:
  assumes "\<forall>c. \<not> f c" and "raise_for_status L r = None" and "iter_content r = map Inr bs"
  shows "snd (with_body L f r) = snd (after_loop L f (filter (\<lambda>c. c \<noteq> []) bs))"
    and "filter is_emit (fst (with_body L f r)) = filter is_emit (fst (after_loop L f (filter (\<lambda>c. c \<noteq> []) bs)))"
proof -
  have x: "snd (iter_chunks f 0 (iter_content r) []) = Inr (Some (filter (\<lambda>c. c \<noteq> []) bs))"
    using assms(1,3) iter_chunks_all [of f 0 bs "[]"] by simp
  have ne: "filter is_emit (fst (iter_chunks f 0 (iter_content r) [])) = []"
    by (rule iter_chunks_no_emit)
  show "snd (with_body L f r) = snd (after_loop L f (filter (\<lambda>c. c \<noteq> []) bs))"
    using x assms(1,2) by (simp add: with_body_def split_def Let_def)
  show "filter is_emit (fst (with_body L f r)) = filter is_emit (fst (after_loop L f (filter (\<lambda>c. c \<noteq> []) bs)))"
    using x ne assms(1,2) by (simp add: with_body_def split_def Let_def)
qed

lemma after_loop_cases:
  assumes "\<not> f BeforeEmit"
  shows "utf8_decode L (concat bs) = Inl e \<Longrightarrow> snd (after_loop L f (filter (\<lambda>c. c \<noteq> []) bs)) = Some e"
    and "utf8_decode L (concat bs) = Inr s \<Longrightarrow> json_loads L s = Inl e \<Longrightarrow>
           snd (after_loop L f (filter (\<lambda>c. c \<noteq> []) bs)) = Some e"
    and "utf8_decode L (concat bs) = Inr s \<Longrightarrow> json_loads L s = Inr d \<Longrightarrow> content_of L d = Inl e \<Longrightarrow>
           snd (after_loop L f (filter (\<lambda>c. c \<noteq> []) bs)) = Some e"
    and "utf8_decode L (concat bs) = Inr s \<Longrightarrow> json_loads L s = Inr d \<Longrightarrow> content_of L d = Inr c \<Longrightarrow>
           after_loop L f (filter (\<lambda>c. c \<noteq> []) bs) = ([Check BeforeEmit False, EmitResult c], None)"
  using assms by (simp_all add: after_loop_def concat_nonempty)

lemma run_result:
  assumes "\<forall>c. \<not> stop_at E c" and "post_result E = Inr r" and "raise_for_status L r = None"
    and "iter_content r = map Inr bs" and "utf8_decode L (concat bs) = Inr s"
    and "json_loads L s = Inr d" and "content_of L d = Inr c"
  shows "emitted (run L E p) = [EmitResult c]"
proof -
  let ?f = "stop_at E"
  have al: "after_loop L ?f (filter (\<lambda>c. c \<noteq> []) bs) = ([Check BeforeEmit False, EmitResult c], None)"
    using assms(1,5,6,7) by (simp add: after_loop_cases(4))
  have "snd (with_body L ?f r) = None" "filter is_emit (fst (with_body L ?f r)) = [EmitResult c]"
    using with_body_after [of ?f L r bs] assms(1,3,4) al by simp_all
  then show ?thesis
    using assms(1,2) by (simp add: run_def emitted_def try_block_def split_def Let_def)
qed

lemma run_error:
  assumes "\<forall>c. \<not> stop_at E c" and "post_result E = Inr r" and "raise_for_status L r = None"
    and "iter_content r = map Inr bs" and "utf8_decode L (concat bs) = Inr s"
    and "json_loads L s = Inr d" and "content_of L d = Inl e"
  shows "emitted (run L E p) = [EmitError (str_exc e)]"
proof -
  have "snd (try_block L E p) = Some e"
    using assms with_body_after(1) [of "stop_at E" L r bs]
      after_loop_cases(3) [of "stop_at E" L bs s d e]
    by (simp add: try_block_with)
  with assms(1) show ?thesis by (rule run_raise)
qed

lemma subscript_other:
  "\<not> is_dict d \<Longrightarrow> subscript L d k = Inl (TypeError (subscript_msg L d))"
  by (cases d) simp_all

lemma emit_arg_other:
  "\<not> is_str c \<Longrightarrow> c \<noteq> JNull \<Longrightarrow> emit_arg L c = Inl (TypeError (emit_msg L c))"
  by (cases c) simp_all

lemma content_of_cases:
  "\<not> is_dict d \<Longrightarrow> content_of L d = Inl (TypeError (subscript_msg L d))"
  "map_of kvs (py ''message'') = None \<Longrightarrow>
     content_of L (JObject kvs) = Inl (KeyError (py ''message''))"
  "map_of kvs (py ''message'') = Some m \<Longrightarrow> \<not> is_dict m \<Longrightarrow>
     content_of L (JObject kvs) = Inl (TypeError (subscript_msg L m))"
  "map_of kvs (py ''message'') = Some (JObject kvs') \<Longrightarrow> map_of kvs' (py ''content'') = None \<Longrightarrow>
     content_of L (JObject kvs) = Inl (KeyError (py ''content''))"
  "map_of kvs (py ''message'') = Some (JObject kvs') \<Longrightarrow> map_of kvs' (py ''content'') = Some c \<Longrightarrow>
     content_of L (JObject kvs) = emit_arg L c"
  by (simp_all add: content_of_def subscript_other)

lemma iter_chunks_continue:
  assumes "\<forall>i. \<not> f (AfterChunk i)"
  shows "snd (iter_chunks f i cs acc) \<noteq> Inr None"
  using assms by (induction f i cs acc rule: iter_chunks.induct) (auto simp: split_def Let_def)

lemma after_loop_total:
  assumes "\<not> f BeforeEmit"
  shows "(\<exists>e. snd (after_loop L f chunks) = Some e) \<or>
         (\<exists>c. after_loop L f chunks = ([Check BeforeEmit False, EmitResult c], None))"
  using assms by (auto simp: after_loop_def split: sum.splits)

lemma with_body_total:
  assumes "\<forall>c. \<not> f c"
  shows "(\<exists>e. snd (with_body L f r) = Some e) \<or>
         (snd (with_body L f r) = None \<and> (\<exists>c. filter is_emit (fst (with_body L f r)) = [EmitResult c]))"
proof (cases "raise_for_status L r")
  case (Some e)
  with assms show ?thesis by (simp add: with_body_def)
next
  case None
  let ?it = "iter_chunks f 0 (iter_content r) []"
  have ne: "filter is_emit (fst ?it) = []" by (rule iter_chunks_no_emit)
  have co: "snd ?it \<noteq> Inr None" using assms by (simp add: iter_chunks_continue)
  show ?thesis
  proof (cases "snd ?it")
    case (Inl e)
    with assms None show ?thesis by (simp add: with_body_def split_def Let_def)
  next
    case (Inr y)
    with co obtain chunks where y: "y = Some chunks" by (cases y) auto
    from assms have "\<not> f BeforeEmit" by simp
    then have "(\<exists>e. snd (after_loop L f chunks) = Some e) \<or>
        (\<exists>c. after_loop L f chunks = ([Check BeforeEmit False, EmitResult c], None))"
      by (rule after_loop_total)
    then show ?thesis
    proof
      assume "\<exists>e. snd (after_loop L f chunks) = Some e"
      with assms None Inr y show ?thesis by (simp add: with_body_def split_def Let_def)
    next
      assume "\<exists>c. after_loop L f chunks = ([Check BeforeEmit False, EmitResult c], None)"
      with assms None Inr y ne show ?thesis by (auto simp: with_body_def split_def Let_def)
    qed
  qed
qed

lemma run_total:
  assumes "\<forall>c. \<not> stop_at E c"
  shows "(\<exists>e. snd (try_block L E p) = Some e \<and> emitted (run L E p) = [EmitError (str_exc e)]) \<or>
         (snd (try_block L E p) = None \<and> (\<exists>c. emitted (run L E p) = [EmitResult c]))"
proof (cases "snd (try_block L E p)")
  case (Some e)
  with assms run_raise [of E L p e] show ?thesis by simp
next
  case None
  show ?thesis
  proof (cases "post_result E")
    case (Inl e)
    with None show ?thesis by (simp add: try_block_def)
  next
    case (Inr r)
    with None have wn: "snd (with_body L (stop_at E) r) = None" by (simp add: try_block_with)
    with with_body_total [OF assms, of L r]
    obtain c where "filter is_emit (fst (with_body L (stop_at E) r)) = [EmitResult c]" by auto
    with wn Inr assms have "emitted (run L E p) = [EmitResult c]"
      by (simp add: run_def emitted_def try_block_def split_def Let_def)
    with None show ?thesis by blast
  qed
qed

lemma posts_iter: "filter is_post (fst (iter_chunks f i cs acc)) = []"
  by (induction f i cs acc rule: iter_chunks.induct) (auto split: prod.splits)

lemma reads_iter: "\<forall>a \<in> set (fst (iter_chunks f i cs acc)). is_read a \<longrightarrow> a = NextChunk 1024"
  by (induction f i cs acc rule: iter_chunks.induct) (auto split: prod.splits)

lemma with_body_posts:
  "filter is_post (fst (with_body L f r)) = []"
  "\<forall>a \<in> set (fst (with_body L f r)). is_read a \<longrightarrow> a = NextChunk 1024"
  using posts_iter [of f 0 "iter_content r" "[]"] reads_iter [of f 0 "iter_content r" "[]"]
  by (auto simp: with_body_def after_loop_def split_def Let_def split: option.splits sum.splits if_splits)

lemma run_posts:
  "filter is_post (run L E p) =
     (if stop_at E BeforeCall then [] else [Post OLLAMA_URL (payload p) True 600])"
  using with_body_posts(1) [of L "stop_at E"]
  by (auto simp: run_def try_block_def handler_def split_def Let_def split: sum.splits option.splits)

lemma run_reads: "\<forall>a \<in> set (run L E p). is_read a \<longrightarrow> a = NextChunk 1024"
  using with_body_posts(2) [of L "stop_at E"]
  by (auto simp: run_def try_block_def handler_def split_def Let_def split: sum.splits option.splits)

section \<open>Cancellation of a request\<close>

text \<open>
  C1.  When the flag is set before \<open>run\<close> starts, \<open>run\<close> reads it once and returns.
  When any read of the flag in \<open>run\<close> (before the call, after the headers, after a
  chunk, before emitting, in the handler) finds it set, \<open>run\<close> emits neither
  \<open>result_ready\<close> nor \<open>error\<close>.
\<close>

theorem cancelled_run_is_silent:
  "(stop_at E BeforeCall \<longrightarrow> run L E p = [Check BeforeCall True]) \<and>
   (Check c True \<in> set (run L E p) \<longrightarrow> emitted (run L E p) = [])"
proof (intro conjI impI)
  assume "stop_at E BeforeCall"
  then show "run L E p = [Check BeforeCall True]" by (simp add: run_def)
next
  assume "Check c True \<in> set (run L E p)"
  then have st: "\<exists>a \<in> set (run L E p). is_stop a" by force
  show "emitted (run L E p) = []"
  proof (cases "stop_at E BeforeCall")
    case True
    then show ?thesis by (simp add: run_def emitted_def)
  next
    case False
    obtain t x where tb: "try_block L E p = (t, x)"
      by (cases "try_block L E p")
    show ?thesis
    proof (cases "\<exists>a \<in> set t. is_stop a")
      case True
      with try_block_stop [of L E p] tb have "x = None \<and> filter is_emit t = []" by simp
      with False tb show ?thesis by (simp add: run_def emitted_def)
    next
      case nostop: False
      show ?thesis
      proof (cases x)
        case None
        with st False tb nostop show ?thesis by (auto simp: run_def)
      next
        case (Some e)
        with try_block_exc [of L E p e] tb have ne: "filter is_emit t = []" by simp
        from st False tb nostop Some have "stop_at E InHandler"
          by (auto simp: run_def handler_def split: if_splits)
        with False tb Some ne show ?thesis by (simp add: run_def emitted_def handler_def)
      qed
    qed
  qed
qed

text \<open>
  The flag set from the start, and the flag set while the second chunk is awaited: the
  read after that chunk finds it, and nothing is emitted.
\<close>

theorem cancelled_run_is_silent_witness:
  "run mock_lib (env_of stop_at_start response_200) (py ''hi'') = [Check BeforeCall True] \<and>
   Check (AfterChunk 1) True \<in> set (run mock_lib (env_of stop_mid_body response_200) (py ''hi'')) \<and>
   emitted (run mock_lib (env_of stop_mid_body response_200) (py ''hi'')) = []"
proof -
  have a: "stop_at (env_of stop_at_start response_200) BeforeCall"
    by (simp add: env_of_def stop_at_start_def)
  have b: "Check (AfterChunk 1) True \<in> set (run mock_lib (env_of stop_mid_body response_200) (py ''hi''))"
    by (simp add: run_def try_block_def with_body_def env_of_def response_200_def
          hello_chunks_def raise_for_status_def Let_def)
  show ?thesis
    using a b
      cancelled_run_is_silent [where E = "env_of stop_at_start response_200" and L = mock_lib
        and p = "py ''hi''"]
      cancelled_run_is_silent [where E = "env_of stop_mid_body response_200" and L = mock_lib
        and p = "py ''hi''" and c = "AfterChunk 1"]
    by simp
qed

text \<open>
  C3.  A stop while the window is busy is to set the flag of the request, to close the
  connection that carries it, and to leave the window idle at once.  At the busy window
  whose running worker reads its response, the stop sets the flag, calls
  \<open>session.close()\<close> and leaves the window idle with the worker still running; the
  connection in flight is as it was, not closed.
\<close>

theorem cancel_leaves_connection_in_flight:
  "ai_thinking streaming_window \<and>
   ai_worker streaming_window =
     Some \<lparr>prompt = py ''hi'', stop_requested = False,
           session = \<lparr>pooled = 0, in_flight = 1, closed = False\<rparr>, isRunning = True\<rparr> \<and>
   ai_worker (handle_send_or_stop streaming_window) =
     Some \<lparr>prompt = py ''hi'', stop_requested = True,
           session = \<lparr>pooled = 0, in_flight = 1, closed = True\<rparr>, isRunning = True\<rparr> \<and>
   \<not> ai_thinking (handle_send_or_stop streaming_window) \<and>
   send_btn (handle_send_or_stop streaming_window) = send_icon"
  by (simp add: streaming_window_def busy_window_eq handle_send_or_stop_def stop_branch_def
        Let_def reading_def checkout_def start_def OllamaWorker_def Session_def stop_def
        Session_close_def)

section \<open>Submitting\<close>




text \<open>
  C7.  While the window is idle, sending an input line that is empty or holds only
  white space changes nothing: the window stays idle, no worker is created or started
  and no bubble is added.
\<close>

theorem blank_send_is_noop:
  assumes "\<not> ai_thinking w" and "\<forall>c \<in> set (input_line w). isspace c"
  shows "handle_send_or_stop w = w"
  using assms by (simp add: handle_send_or_stop_def send_branch_def strip_blank)

theorem blank_send_is_noop_witness:
  "input_line blank_window = [32, 9, 12288] \<and> handle_send_or_stop blank_window = blank_window"
proof -
  have h: "\<not> ai_thinking blank_window" "\<forall>c \<in> set (input_line blank_window). isspace c"
    by (simp_all add: blank_window_def ChatWindow_init_def isspace_def)
  from blank_send_is_noop [OF h] show ?thesis
    by (simp add: blank_window_def)
qed



section \<open>Outcomes of a request that is not cancelled\<close>

text \<open>
  C4, as stated, fails twice.  A status that is neither 2xx nor from 400 to 599 is no
  failure for \<open>run\<close>: the response with status 300 whose body is the envelope for
  \<open>hello\<close> ends in that result.  And a content that is \<open>null\<close> is no failure
  either: the response with status 200 whose body has it ends in the empty result.
\<close>

theorem status_300_and_null_content_are_results:
  "stop_at (env_of no_stop response_300) = no_stop \<and>
   post_result (env_of no_stop response_300) = Inr response_300 \<and>
   status_code response_300 = 300 \<and>
   emitted (run mock_lib (env_of no_stop response_300) (py ''hi'')) = [EmitResult (py ''hello'')] \<and>
   post_result (env_of no_stop (response_of body_null)) = Inr (response_of body_null) \<and>
   status_code (response_of body_null) = 200 \<and>
   json_loads mock_lib (py body_null) =
     Inr (JObject [(py ''message'', JObject [(py ''content'', JNull)])]) \<and>
   emitted (run mock_lib (env_of no_stop (response_of body_null)) (py ''hi'')) = [EmitResult [] ]"
proof -
  have "emitted (run mock_lib (env_of no_stop response_300) (py ''hi'')) = [EmitResult (py ''hello'')]"
  proof (rule run_result)
    show "\<forall>c. \<not> stop_at (env_of no_stop response_300) c"
      by (simp add: env_of_def no_stop_def)
    show "post_result (env_of no_stop response_300) = Inr response_300"
      by (simp add: env_of_def)
    show "raise_for_status mock_lib response_300 = None"
      by (simp add: raise_for_status_def response_300_def)
    show "iter_content response_300 = map Inr hello_chunks"
      by (simp add: response_300_def)
    show "utf8_decode mock_lib (concat hello_chunks) = Inr (py ''{\"message\":{\"content\":\"hello\"}}'')"
      by (simp add: mock_lib_def mock_decode_def hello_chunks_def py_def)
    show "json_loads mock_lib (py ''{\"message\":{\"content\":\"hello\"}}'') = Inr hello_object"
      by (simp add: mock_lib_def mock_loads_def)
    show "content_of mock_lib hello_object = Inr (py ''hello'')"
      by (simp add: content_of_def hello_object_def py_def)
  qed
  moreover have l: "json_loads mock_lib (py body_null) =
      Inr (JObject [(py ''message'', JObject [(py ''content'', JNull)])])"
    by (simp add: mock_lib_def mock_loads_def body_null_def py_def)
  moreover have "emitted (run mock_lib (env_of no_stop (response_of body_null)) (py ''hi'')) = [EmitResult [] ]"
  proof (rule run_result)
    show "\<forall>c. \<not> stop_at (env_of no_stop (response_of body_null)) c"
      by (simp add: env_of_def no_stop_def)
    show "post_result (env_of no_stop (response_of body_null)) = Inr (response_of body_null)"
      by (simp add: env_of_def)
    show "raise_for_status mock_lib (response_of body_null) = None"
      by (simp add: raise_for_status_def response_of_def)
    show "iter_content (response_of body_null) = map Inr [body_null]"
      by (simp add: response_of_def)
    show "utf8_decode mock_lib (concat [body_null]) = Inr (py body_null)"
      by (simp add: mock_lib_def mock_decode_def body_null_def py_def)
    show "json_loads mock_lib (py body_null) =
        Inr (JObject [(py ''message'', JObject [(py ''content'', JNull)])])"
      by (rule l)
    show "content_of mock_lib (JObject [(py ''message'', JObject [(py ''content'', JNull)])]) = Inr []"
      by (simp add: content_of_def)
  qed
  ultimately show ?thesis
    by (simp add: env_of_def response_300_def response_of_def)
qed

text \<open>
  C4, amended.  In a request that is not cancelled, each of these failures ends in
  exactly one emission, the signal \<open>error\<close> with the text of the exception, and in no
  result: \<open>session.post\<close> raises (connection failure, timeout); the status is from 400
  to 599; the iteration over the body raises; the body is not UTF-8; the text is not
  JSON; the document or its \<open>message\<close> is not an object; \<open>message\<close> or \<open>content\<close> is
  absent; \<open>content\<close> is neither a string nor \<open>null\<close>.  A content that is \<open>null\<close> is
  emitted as the empty result, a string as itself.  Every exception of the \<open>try\<close>
  block reaches the handler, none leaves \<open>run\<close>: either the block raises and \<open>run\<close>
  emits that one error, or it ends normally and \<open>run\<close> emits one result.
\<close>

theorem failure_emits_error:
  assumes "\<forall>c. \<not> stop_at E c"
  shows "((\<exists>x. snd (try_block L E p) = Some x \<and> emitted (run L E p) = [EmitError (str_exc x)]) \<or>
     (snd (try_block L E p) = None \<and> (\<exists>t. emitted (run L E p) = [EmitResult t]))) \<and>
   (post_result E = Inl e \<longrightarrow> emitted (run L E p) = [EmitError (str_exc e)]) \<and>
   (post_result E = Inr r \<and> 400 \<le> status_code r \<and> status_code r < 600 \<longrightarrow>
      emitted (run L E p) = [EmitError (http_error_msg L (status_code r))]) \<and>
   (post_result E = Inr r \<and> raise_for_status L r = None \<and>
      iter_content r = map Inr bs @ Inl e # rest \<longrightarrow>
      emitted (run L E p) = [EmitError (str_exc e)]) \<and>
   (post_result E = Inr r \<and> raise_for_status L r = None \<and> iter_content r = map Inr bs \<and>
      utf8_decode L (concat bs) = Inl e \<longrightarrow>
      emitted (run L E p) = [EmitError (str_exc e)]) \<and>
   (post_result E = Inr r \<and> raise_for_status L r = None \<and> iter_content r = map Inr bs \<and>
      utf8_decode L (concat bs) = Inr s \<and> json_loads L s = Inl e \<longrightarrow>
      emitted (run L E p) = [EmitError (str_exc e)]) \<and>
   (post_result E = Inr r \<and> raise_for_status L r = None \<and> iter_content r = map Inr bs \<and>
      utf8_decode L (concat bs) = Inr s \<and> json_loads L s = Inr d \<longrightarrow>
      (\<not> is_dict d \<longrightarrow> emitted (run L E p) = [EmitError (subscript_msg L d)]) \<and>
      (d = JObject kvs \<longrightarrow>
         (map_of kvs (py ''message'') = None \<longrightarrow>
            emitted (run L E p) = [EmitError ([39] @ py ''message'' @ [39])]) \<and>
         (map_of kvs (py ''message'') = Some m \<longrightarrow>
            (\<not> is_dict m \<longrightarrow> emitted (run L E p) = [EmitError (subscript_msg L m)]) \<and>
            (m = JObject kvs' \<longrightarrow>
               (map_of kvs' (py ''content'') = None \<longrightarrow>
                  emitted (run L E p) = [EmitError ([39] @ py ''content'' @ [39])]) \<and>
               (map_of kvs' (py ''content'') = Some c \<longrightarrow>
                  (\<not> is_str c \<and> c \<noteq> JNull \<longrightarrow>
                     emitted (run L E p) = [EmitError (emit_msg L c)]) \<and>
                  (c = JNull \<longrightarrow> emitted (run L E p) = [EmitResult [] ]) \<and>
                  (c = JString u \<longrightarrow> emitted (run L E p) = [EmitResult u]))))))"
proof -
  have 0: "(\<exists>x. snd (try_block L E p) = Some x \<and> emitted (run L E p) = [EmitError (str_exc x)]) \<or>
     (snd (try_block L E p) = None \<and> (\<exists>t. emitted (run L E p) = [EmitResult t]))"
    using assms by (rule run_total)
  have 1: "post_result E = Inl e \<longrightarrow> emitted (run L E p) = [EmitError (str_exc e)]"
    using assms by (simp add: run_raise try_block_post_raise)
  have 2: "post_result E = Inr r \<and> 400 \<le> status_code r \<and> status_code r < 600 \<longrightarrow>
      emitted (run L E p) = [EmitError (http_error_msg L (status_code r))]"
  proof
    assume a: "post_result E = Inr r \<and> 400 \<le> status_code r \<and> status_code r < 600"
    then have "raise_for_status L r = Some (HTTPError (http_error_msg L (status_code r)))"
      by (simp add: raise_for_status_def)
    with a assms have "snd (try_block L E p) = Some (HTTPError (http_error_msg L (status_code r)))"
      by (simp add: try_block_with with_body_status)
    with assms show "emitted (run L E p) = [EmitError (http_error_msg L (status_code r))]"
      using run_raise [of E L p "HTTPError (http_error_msg L (status_code r))"] by simp
  qed
  have 3: "post_result E = Inr r \<and> raise_for_status L r = None \<and>
      iter_content r = map Inr bs @ Inl e # rest \<longrightarrow>
      emitted (run L E p) = [EmitError (str_exc e)]"
  proof
    assume "post_result E = Inr r \<and> raise_for_status L r = None \<and>
      iter_content r = map Inr bs @ Inl e # rest"
    with assms have "snd (try_block L E p) = Some e"
      using with_body_iter_raise [of "stop_at E" L r bs e rest] by (simp add: try_block_with)
    with assms show "emitted (run L E p) = [EmitError (str_exc e)]" by (rule run_raise)
  qed
  have 4: "post_result E = Inr r \<and> raise_for_status L r = None \<and> iter_content r = map Inr bs \<and>
      utf8_decode L (concat bs) = Inl e \<longrightarrow>
      emitted (run L E p) = [EmitError (str_exc e)]"
  proof
    assume "post_result E = Inr r \<and> raise_for_status L r = None \<and> iter_content r = map Inr bs \<and>
      utf8_decode L (concat bs) = Inl e"
    with assms have "snd (try_block L E p) = Some e"
      using with_body_after(1) [of "stop_at E" L r bs] after_loop_cases(1) [of "stop_at E" L bs e]
      by (simp add: try_block_with)
    with assms show "emitted (run L E p) = [EmitError (str_exc e)]" by (rule run_raise)
  qed
  have 5: "post_result E = Inr r \<and> raise_for_status L r = None \<and> iter_content r = map Inr bs \<and>
      utf8_decode L (concat bs) = Inr s \<and> json_loads L s = Inl e \<longrightarrow>
      emitted (run L E p) = [EmitError (str_exc e)]"
  proof
    assume "post_result E = Inr r \<and> raise_for_status L r = None \<and> iter_content r = map Inr bs \<and>
      utf8_decode L (concat bs) = Inr s \<and> json_loads L s = Inl e"
    with assms have "snd (try_block L E p) = Some e"
      using with_body_after(1) [of "stop_at E" L r bs] after_loop_cases(2) [of "stop_at E" L bs s e]
      by (simp add: try_block_with)
    with assms show "emitted (run L E p) = [EmitError (str_exc e)]" by (rule run_raise)
  qed
  have 6: "post_result E = Inr r \<and> raise_for_status L r = None \<and> iter_content r = map Inr bs \<and>
      utf8_decode L (concat bs) = Inr s \<and> json_loads L s = Inr d \<longrightarrow>
      (\<not> is_dict d \<longrightarrow> emitted (run L E p) = [EmitError (subscript_msg L d)]) \<and>
      (d = JObject kvs \<longrightarrow>
         (map_of kvs (py ''message'') = None \<longrightarrow>
            emitted (run L E p) = [EmitError ([39] @ py ''message'' @ [39])]) \<and>
         (map_of kvs (py ''message'') = Some m \<longrightarrow>
            (\<not> is_dict m \<longrightarrow> emitted (run L E p) = [EmitError (subscript_msg L m)]) \<and>
            (m = JObject kvs' \<longrightarrow>
               (map_of kvs' (py ''content'') = None \<longrightarrow>
                  emitted (run L E p) = [EmitError ([39] @ py ''content'' @ [39])]) \<and>
               (map_of kvs' (py ''content'') = Some c \<longrightarrow>
                  (\<not> is_str c \<and> c \<noteq> JNull \<longrightarrow>
                     emitted (run L E p) = [EmitError (emit_msg L c)]) \<and>
                  (c = JNull \<longrightarrow> emitted (run L E p) = [EmitResult [] ]) \<and>
                  (c = JString u \<longrightarrow> emitted (run L E p) = [EmitResult u])))))"
  proof
    assume a: "post_result E = Inr r \<and> raise_for_status L r = None \<and> iter_content r = map Inr bs \<and>
      utf8_decode L (concat bs) = Inr s \<and> json_loads L s = Inr d"
    have err: "\<And>x. content_of L d = Inl x \<Longrightarrow> emitted (run L E p) = [EmitError (str_exc x)]"
      using assms a run_error [of E r L bs s d _ p] by blast
    have res: "\<And>x. content_of L d = Inr x \<Longrightarrow> emitted (run L E p) = [EmitResult x]"
      using assms a run_result [of E r L bs s d _ p] by blast
    show "(\<not> is_dict d \<longrightarrow> emitted (run L E p) = [EmitError (subscript_msg L d)]) \<and>
      (d = JObject kvs \<longrightarrow>
         (map_of kvs (py ''message'') = None \<longrightarrow>
            emitted (run L E p) = [EmitError ([39] @ py ''message'' @ [39])]) \<and>
         (map_of kvs (py ''message'') = Some m \<longrightarrow>
            (\<not> is_dict m \<longrightarrow> emitted (run L E p) = [EmitError (subscript_msg L m)]) \<and>
            (m = JObject kvs' \<longrightarrow>
               (map_of kvs' (py ''content'') = None \<longrightarrow>
                  emitted (run L E p) = [EmitError ([39] @ py ''content'' @ [39])]) \<and>
               (map_of kvs' (py ''content'') = Some c \<longrightarrow>
                  (\<not> is_str c \<and> c \<noteq> JNull \<longrightarrow>
                     emitted (run L E p) = [EmitError (emit_msg L c)]) \<and>
                  (c = JNull \<longrightarrow> emitted (run L E p) = [EmitResult [] ]) \<and>
                  (c = JString u \<longrightarrow> emitted (run L E p) = [EmitResult u])))))"
    proof (intro conjI impI)
      assume "\<not> is_dict d"
      then have "content_of L d = Inl (TypeError (subscript_msg L d))" by (rule content_of_cases(1))
      from err [OF this] show "emitted (run L E p) = [EmitError (subscript_msg L d)]" by simp
    next
      assume "d = JObject kvs" "map_of kvs (py ''message'') = None"
      then have "content_of L d = Inl (KeyError (py ''message''))" by (simp add: content_of_cases(2))
      from err [OF this] show "emitted (run L E p) = [EmitError ([39] @ py ''message'' @ [39])]" by simp
    next
      assume "d = JObject kvs" "map_of kvs (py ''message'') = Some m" "\<not> is_dict m"
      then have "content_of L d = Inl (TypeError (subscript_msg L m))" by (simp add: content_of_cases(3))
      from err [OF this] show "emitted (run L E p) = [EmitError (subscript_msg L m)]" by simp
    next
      assume "d = JObject kvs" "map_of kvs (py ''message'') = Some m" "m = JObject kvs'"
        "map_of kvs' (py ''content'') = None"
      then have "content_of L d = Inl (KeyError (py ''content''))" by (simp add: content_of_cases(4))
      from err [OF this] show "emitted (run L E p) = [EmitError ([39] @ py ''content'' @ [39])]" by simp
    next
      assume "d = JObject kvs" "map_of kvs (py ''message'') = Some m" "m = JObject kvs'"
        "map_of kvs' (py ''content'') = Some c" "\<not> is_str c \<and> c \<noteq> JNull"
      then have "content_of L d = Inl (TypeError (emit_msg L c))"
        by (simp add: content_of_cases(5) emit_arg_other)
      from err [OF this] show "emitted (run L E p) = [EmitError (emit_msg L c)]" by simp
    next
      assume "d = JObject kvs" "map_of kvs (py ''message'') = Some m" "m = JObject kvs'"
        "map_of kvs' (py ''content'') = Some c" "c = JNull"
      then have "content_of L d = Inr []" by (simp add: content_of_cases(5))
      from res [OF this] show "emitted (run L E p) = [EmitResult [] ]" .
    next
      assume "d = JObject kvs" "map_of kvs (py ''message'') = Some m" "m = JObject kvs'"
        "map_of kvs' (py ''content'') = Some c" "c = JString u"
      then have "content_of L d = Inr u" by (simp add: content_of_cases(5))
      from res [OF this] show "emitted (run L E p) = [EmitResult u]" .
    qed
  qed
  show ?thesis by (intro conjI 0 1 2 3 4 5 6)
qed

text \<open>
  One request for each failure: a refused connection, the status 500, a connection that
  breaks in the body, a body that is not UTF-8, a text that is not JSON, a document
  that is a number, one without \<open>message\<close>, one whose \<open>message\<close> is a number, one
  without \<open>content\<close>, one whose \<open>content\<close> is a number.
\<close>

theorem failure_emits_error_witness:
  "emitted (run mock_lib env_refused (py ''hi'')) = [EmitError (py ''Connection refused'')] \<and>
   emitted (run mock_lib (env_of no_stop response_500) (py ''hi'')) = [EmitError (py ''Server Error'')] \<and>
   emitted (run mock_lib (env_of no_stop response_broken) (py ''hi'')) =
     [EmitError (py ''Connection broken'')] \<and>
   emitted (run mock_lib (env_of no_stop response_bad_utf8) (py ''hi'')) =
     [EmitError (py ''invalid start byte'')] \<and>
   emitted (run mock_lib (env_of no_stop response_bad_json) (py ''hi'')) =
     [EmitError (py ''Expecting value'')] \<and>
   emitted (run mock_lib (env_of no_stop (response_of body_bare_number)) (py ''hi'')) =
     [EmitError (py ''not subscriptable'')] \<and>
   emitted (run mock_lib (env_of no_stop response_no_message) (py ''hi'')) =
     [EmitError ([39] @ py ''message'' @ [39])] \<and>
   emitted (run mock_lib (env_of no_stop (response_of body_message_number)) (py ''hi'')) =
     [EmitError (py ''not subscriptable'')] \<and>
   emitted (run mock_lib (env_of no_stop (response_of body_no_content)) (py ''hi'')) =
     [EmitError ([39] @ py ''content'' @ [39])] \<and>
   emitted (run mock_lib (env_of no_stop (response_of body_number)) (py ''hi'')) =
     [EmitError (py ''unexpected type'')]"
proof -
  have n: "\<forall>c. \<not> stop_at env_refused c" "\<And>r. \<forall>c. \<not> stop_at (env_of no_stop r) c"
    by (simp_all add: env_refused_def env_of_def no_stop_def)
  have 1: "post_result env_refused = Inl (RequestException (py ''Connection refused''))"
    by (simp add: env_refused_def)
  have 2: "post_result (env_of no_stop response_500) = Inr response_500 \<and>
      400 \<le> status_code response_500 \<and> status_code response_500 < 600"
    by (simp add: env_of_def response_500_def)
  have 3: "post_result (env_of no_stop response_broken) = Inr response_broken \<and>
      raise_for_status mock_lib response_broken = None \<and>
      iter_content response_broken =
        map Inr [''{\"message\":''] @ Inl (RequestException (py ''Connection broken'')) # []"
    by (simp add: env_of_def response_broken_def raise_for_status_def)
  have 4: "post_result (env_of no_stop response_bad_utf8) = Inr response_bad_utf8 \<and>
      raise_for_status mock_lib response_bad_utf8 = None \<and>
      iter_content response_bad_utf8 = map Inr [invalid_utf8] \<and>
      utf8_decode mock_lib (concat [invalid_utf8]) =
        Inl (UnicodeDecodeError (py ''invalid start byte''))"
    by (simp add: env_of_def response_bad_utf8_def raise_for_status_def mock_lib_def
          mock_decode_def invalid_utf8_def)
  have 5: "post_result (env_of no_stop response_bad_json) = Inr response_bad_json \<and>
      raise_for_status mock_lib response_bad_json = None \<and>
      iter_content response_bad_json = map Inr [''nonsense''] \<and>
      utf8_decode mock_lib (concat [''nonsense'']) = Inr (py ''nonsense'') \<and>
      json_loads mock_lib (py ''nonsense'') = Inl (JSONDecodeError (py ''Expecting value''))"
    by (simp add: env_of_def response_bad_json_def raise_for_status_def mock_lib_def
          mock_decode_def mock_loads_def py_def)
  have 6: "post_result (env_of no_stop (response_of body_bare_number)) = Inr (response_of body_bare_number) \<and>
      raise_for_status mock_lib (response_of body_bare_number) = None \<and>
      iter_content (response_of body_bare_number) = map Inr [body_bare_number] \<and>
      utf8_decode mock_lib (concat [body_bare_number]) = Inr (py body_bare_number) \<and>
      json_loads mock_lib (py body_bare_number) = Inr (JNumber 8)"
    by (simp add: env_of_def response_of_def raise_for_status_def mock_lib_def
          mock_decode_def mock_loads_def body_bare_number_def py_def)
  have 7: "post_result (env_of no_stop response_no_message) = Inr response_no_message \<and>
      raise_for_status mock_lib response_no_message = None \<and>
      iter_content response_no_message = map Inr [''{}''] \<and>
      utf8_decode mock_lib (concat [''{}'']) = Inr (py ''{}'') \<and>
      json_loads mock_lib (py ''{}'') = Inr (JObject [])"
    by (simp add: env_of_def response_no_message_def raise_for_status_def mock_lib_def
          mock_decode_def mock_loads_def py_def)
  have 8: "post_result (env_of no_stop (response_of body_message_number)) =
        Inr (response_of body_message_number) \<and>
      raise_for_status mock_lib (response_of body_message_number) = None \<and>
      iter_content (response_of body_message_number) = map Inr [body_message_number] \<and>
      utf8_decode mock_lib (concat [body_message_number]) = Inr (py body_message_number) \<and>
      json_loads mock_lib (py body_message_number) = Inr (JObject [(py ''message'', JNumber 7)])"
    by (simp add: env_of_def response_of_def raise_for_status_def mock_lib_def
          mock_decode_def mock_loads_def body_message_number_def py_def)
  have 9: "post_result (env_of no_stop (response_of body_no_content)) =
        Inr (response_of body_no_content) \<and>
      raise_for_status mock_lib (response_of body_no_content) = None \<and>
      iter_content (response_of body_no_content) = map Inr [body_no_content] \<and>
      utf8_decode mock_lib (concat [body_no_content]) = Inr (py body_no_content) \<and>
      json_loads mock_lib (py body_no_content) = Inr (JObject [(py ''message'', JObject [])])"
    by (simp add: env_of_def response_of_def raise_for_status_def mock_lib_def
          mock_decode_def mock_loads_def body_no_content_def py_def)
  have 10: "post_result (env_of no_stop (response_of body_number)) = Inr (response_of body_number) \<and>
      raise_for_status mock_lib (response_of body_number) = None \<and>
      iter_content (response_of body_number) = map Inr [body_number] \<and>
      utf8_decode mock_lib (concat [body_number]) = Inr (py body_number) \<and>
      json_loads mock_lib (py body_number) =
        Inr (JObject [(py ''message'', JObject [(py ''content'', JNumber 5)])])"
    by (simp add: env_of_def response_of_def raise_for_status_def mock_lib_def
          mock_decode_def mock_loads_def body_number_def py_def)
  have "emitted (run mock_lib env_refused (py ''hi'')) = [EmitError (py ''Connection refused'')]"
    using 1 failure_emits_error [OF n(1), where L = mock_lib and p = "py ''hi''"
        and e = "RequestException (py ''Connection refused'')"]
    by simp
  moreover have "emitted (run mock_lib (env_of no_stop response_500) (py ''hi'')) =
      [EmitError (py ''Server Error'')]"
    using 2 failure_emits_error [OF n(2), where L = mock_lib and p = "py ''hi''"
        and r = response_500]
    by (simp add: mock_lib_def)
  moreover have "emitted (run mock_lib (env_of no_stop response_broken) (py ''hi'')) =
      [EmitError (py ''Connection broken'')]"
    using 3 failure_emits_error [OF n(2), where L = mock_lib and p = "py ''hi''"
        and r = response_broken and bs = "[''{\"message\":'']" and rest = "[]"
        and e = "RequestException (py ''Connection broken'')"]
    by simp
  moreover have "emitted (run mock_lib (env_of no_stop response_bad_utf8) (py ''hi'')) =
      [EmitError (py ''invalid start byte'')]"
    using 4 failure_emits_error [OF n(2), where L = mock_lib and p = "py ''hi''"
        and r = response_bad_utf8 and bs = "[invalid_utf8]"
        and e = "UnicodeDecodeError (py ''invalid start byte'')"]
    by simp
  moreover have "emitted (run mock_lib (env_of no_stop response_bad_json) (py ''hi'')) =
      [EmitError (py ''Expecting value'')]"
    using 5 failure_emits_error [OF n(2), where L = mock_lib and p = "py ''hi''"
        and r = response_bad_json and bs = "[''nonsense'']" and s = "py ''nonsense''"
        and e = "JSONDecodeError (py ''Expecting value'')"]
    by simp
  moreover have "emitted (run mock_lib (env_of no_stop (response_of body_bare_number)) (py ''hi'')) =
      [EmitError (py ''not subscriptable'')]"
    using 6 failure_emits_error [OF n(2), where L = mock_lib and p = "py ''hi''"
        and r = "response_of body_bare_number" and bs = "[body_bare_number]"
        and s = "py body_bare_number" and d = "JNumber 8"]
    by (simp add: mock_lib_def)
  moreover have "emitted (run mock_lib (env_of no_stop response_no_message) (py ''hi'')) =
      [EmitError ([39] @ py ''message'' @ [39])]"
    using 7 failure_emits_error [OF n(2), where L = mock_lib and p = "py ''hi''"
        and r = response_no_message and bs = "[''{}'']" and s = "py ''{}''"
        and d = "JObject []" and kvs = "[]"]
    by simp
  moreover have "emitted (run mock_lib (env_of no_stop (response_of body_message_number)) (py ''hi'')) =
      [EmitError (py ''not subscriptable'')]"
    using 8 failure_emits_error [OF n(2), where L = mock_lib and p = "py ''hi''"
        and r = "response_of body_message_number" and bs = "[body_message_number]"
        and s = "py body_message_number" and d = "JObject [(py ''message'', JNumber 7)]"
        and kvs = "[(py ''message'', JNumber 7)]" and m = "JNumber 7"]
    by (simp add: mock_lib_def)
  moreover have "emitted (run mock_lib (env_of no_stop (response_of body_no_content)) (py ''hi'')) =
      [EmitError ([39] @ py ''content'' @ [39])]"
    using 9 failure_emits_error [OF n(2), where L = mock_lib and p = "py ''hi''"
        and r = "response_of body_no_content" and bs = "[body_no_content]"
        and s = "py body_no_content" and d = "JObject [(py ''message'', JObject [])]"
        and kvs = "[(py ''message'', JObject [])]" and m = "JObject []" and kvs' = "[]"]
    by simp
  moreover have "emitted (run mock_lib (env_of no_stop (response_of body_number)) (py ''hi'')) =
      [EmitError (py ''unexpected type'')]"
    using 10 failure_emits_error [OF n(2), where L = mock_lib and p = "py ''hi''"
        and r = "response_of body_number" and bs = "[body_number]"
        and s = "py body_number"
        and d = "JObject [(py ''message'', JObject [(py ''content'', JNumber 5)])]"
        and kvs = "[(py ''message'', JObject [(py ''content'', JNumber 5)])]"
        and m = "JObject [(py ''content'', JNumber 5)]"
        and kvs' = "[(py ''content'', JNumber 5)]" and c = "JNumber 5"]
    by (simp add: mock_lib_def)
  ultimately show ?thesis by simp
qed

text \<open>
  C5.  When the request is not cancelled, the response arrives with a status that
  \<open>raise_for_status\<close> accepts, its body is read to the end and is the JSON object with
  the one member \<open>message\<close>, an object with the one member \<open>content\<close>, a string \<open>c\<close>,
  then \<open>run\<close> emits exactly one signal, \<open>result_ready\<close> with \<open>c\<close>.
\<close>

theorem envelope_emits_content:
  assumes "\<forall>c. \<not> stop_at E c" and "post_result E = Inr r" and "raise_for_status L r = None"
    and "iter_content r = map Inr bs" and "utf8_decode L (concat bs) = Inr s"
    and "json_loads L s = Inr (JObject [(py ''message'', JObject [(py ''content'', JString c)])])"
  shows "emitted (run L E p) = [EmitResult c]"
proof -
  have "content_of L (JObject [(py ''message'', JObject [(py ''content'', JString c)])]) = Inr c"
    by (simp add: content_of_def)
  with assms show ?thesis by (rule run_result)
qed

text \<open>
  Sending \<open>hi\<close> from the initial window starts a worker with the prompt \<open>hi\<close>; against
  the response with the envelope for \<open>hello\<close> its \<open>run\<close> emits the result \<open>hello\<close>.
\<close>

theorem envelope_emits_content_witness:
  "map_option prompt (ai_worker busy_window) = Some (py ''hi'') \<and>
   emitted (run mock_lib (env_of no_stop response_200) (py ''hi'')) = [EmitResult (py ''hello'')]"
proof -
  have 1: "\<forall>c. \<not> stop_at (env_of no_stop response_200) c"
    by (simp add: env_of_def no_stop_def)
  have 2: "post_result (env_of no_stop response_200) = Inr response_200"
    by (simp add: env_of_def)
  have 3: "raise_for_status mock_lib response_200 = None"
    by (simp add: raise_for_status_def response_200_def)
  have 4: "iter_content response_200 = map Inr hello_chunks"
    by (simp add: response_200_def)
  have 5: "utf8_decode mock_lib (concat hello_chunks) = Inr (py ''{\"message\":{\"content\":\"hello\"}}'')"
    by (simp add: mock_lib_def mock_decode_def hello_chunks_def py_def)
  have 6: "json_loads mock_lib (py ''{\"message\":{\"content\":\"hello\"}}'') =
      Inr (JObject [(py ''message'', JObject [(py ''content'', JString (py ''hello''))])])"
    by (simp add: mock_lib_def mock_loads_def hello_object_def)
  have "map_option prompt (ai_worker busy_window) = Some (py ''hi'')"
    by (simp add: busy_window_eq start_def OllamaWorker_def)
  with envelope_emits_content [OF 1 2 3 4 5 6, of "py ''hi''"] show ?thesis
    by simp
qed

text \<open>
  C8.  \<open>run\<close> sends at most one request, and none only when the flag is set before
  the call: a POST to the configured URL whose JSON body is the object with the model
  name, the one message of the role \<open>user\<close> with the prompt as content, and \<open>stream\<close>
  false; it is sent with \<open>stream=True\<close> and a timeout of 600 seconds.  The body is
  never read as a whole: every read asks for the next chunk of at most 1024 bytes.
\<close>

theorem request_shape:
  "filter is_post (run L E p) =
     (if stop_at E BeforeCall then []
      else [Post OLLAMA_URL
              (JObject [(py ''model'', JString MODEL_NAME),
                        (py ''messages'',
                           JArray [JObject [(py ''role'', JString (py ''user'')),
                                            (py ''content'', JString p)] ]),
                        (py ''stream'', JBool False)])
              True 600]) \<and>
   (\<forall>a \<in> set (run L E p). is_read a \<longrightarrow> a = NextChunk 1024)"
  using run_posts [of L E p] run_reads [of L E p] by (simp add: payload_def)

text \<open>The trace of the request for \<open>hi\<close> that is answered with \<open>hello\<close>.\<close>

theorem request_shape_witness:
  "run mock_lib (env_of no_stop response_200) (py ''hi'') =
     [Check BeforeCall False,
      Post (py ''http://localhost:11434/api/chat'')
        (JObject [(py ''model'', JString (py ''deepseek-r1:32b'')),
                  (py ''messages'',
                     JArray [JObject [(py ''role'', JString (py ''user'')),
                                      (py ''content'', JString (py ''hi''))] ]),
                  (py ''stream'', JBool False)])
        True 600,
      Check AfterHeaders False, RaiseForStatus,
      NextChunk 1024, Check (AfterChunk 0) False,
      NextChunk 1024, Check (AfterChunk 1) False,
      NextChunk 1024, Check (AfterChunk 2) False,
      NextChunk 1024,
      Check BeforeEmit False, EmitResult (py ''hello''), Close] \<and>
   filter is_read (run mock_lib (env_of no_stop response_200) (py ''hi'')) =
     [NextChunk 1024, NextChunk 1024, NextChunk 1024, NextChunk 1024]"
proof -
  have t: "run mock_lib (env_of no_stop response_200) (py ''hi'') =
     [Check BeforeCall False,
      Post (py ''http://localhost:11434/api/chat'')
        (JObject [(py ''model'', JString (py ''deepseek-r1:32b'')),
                  (py ''messages'',
                     JArray [JObject [(py ''role'', JString (py ''user'')),
                                      (py ''content'', JString (py ''hi''))] ]),
                  (py ''stream'', JBool False)])
        True 600,
      Check AfterHeaders False, RaiseForStatus,
      NextChunk 1024, Check (AfterChunk 0) False,
      NextChunk 1024, Check (AfterChunk 1) False,
      NextChunk 1024, Check (AfterChunk 2) False,
      NextChunk 1024,
      Check BeforeEmit False, EmitResult (py ''hello''), Close]"
    by (simp add: run_def try_block_def with_body_def after_loop_def content_of_def env_of_def
          no_stop_def response_200_def hello_chunks_def raise_for_status_def mock_lib_def
          mock_decode_def mock_loads_def hello_object_def payload_def OLLAMA_URL_def
          MODEL_NAME_def py_def Let_def)
  have "\<forall>a \<in> set (run mock_lib (env_of no_stop response_200) (py ''hi'')). is_read a \<longrightarrow> a = NextChunk 1024"
    using request_shape [of mock_lib "env_of no_stop response_200" "py ''hi''"] by blast
  then have "filter is_read (run mock_lib (env_of no_stop response_200) (py ''hi'')) =
      replicate (length (filter is_read (run mock_lib (env_of no_stop response_200) (py ''hi'')))) (NextChunk 1024)"
    by (intro replicate_length_same [symmetric]) simp
  also have "length (filter is_read (run mock_lib (env_of no_stop response_200) (py ''hi''))) = 4"
    unfolding t by simp
  finally show ?thesis using t by (simp add: numeral_eq_Suc)
qed

section \<open>A result in the window\<close>

text \<open>
  C6, as stated, fails: a stop after the result \<open>hello\<close> has been delivered, and the
  worker has ended, changes the window.  The window was busy and is idle afterwards,
  and the label of the result's bubble, empty before, holds the whole text.
\<close>

theorem cancel_after_result_changes_state:
  "ai_thinking typing_window \<and>
   handle_send_or_stop typing_window \<noteq> typing_window \<and>
   \<not> ai_thinking (handle_send_or_stop typing_window) \<and>
   map text_label (chat_layout typing_window) = [py ''hi'', [] ] \<and>
   map text_label (chat_layout (handle_send_or_stop typing_window)) = [py ''hi'', py ''hello'']"
  by (simp add: typing_window_def answered_window_def busy_window_eq start_typing_animation_def
        handle_send_or_stop_def stop_branch_def Let_def setText_def Bubble_def py_def start_def
        finish_def OllamaWorker_def)

text \<open>
  C6, amended.  After a result \<open>t\<close> that is not empty has been delivered to the busy
  window, and the timer has fired \<open>n\<close> times with \<open>n\<close> at most the length of \<open>t\<close>, the
  window is still busy with its animation and the bubble of the result shows the first
  \<open>n\<close> characters of \<open>t\<close>.  A stop then does not retract the result: the bubble is kept
  and shows \<open>t\<close> in full, no bubble is added, no worker is started and the input line
  is unchanged.  The stop is not without effect: the timer is stopped and the window
  becomes idle.
\<close>

theorem cancel_after_result_completes_bubble:
  assumes "ai_thinking w" and "t \<noteq> []" and "n \<le> length t"
  shows "\<exists>wn. ticks n (start_typing_animation t w) = Some wn \<and>
           ai_thinking wn \<and> typing_timer wn \<and>
           chat_layout wn = chat_layout w @ [\<lparr>text_label = take n t, sender = py ''AI''\<rparr>] \<and>
           chat_layout (handle_send_or_stop wn) =
             chat_layout w @ [\<lparr>text_label = t, sender = py ''AI''\<rparr>] \<and>
           \<not> ai_thinking (handle_send_or_stop wn) \<and>
           \<not> typing_timer (handle_send_or_stop wn) \<and>
           started (handle_send_or_stop wn) = started w \<and>
           input_line (handle_send_or_stop wn) = input_line w"
proof -
  let ?wn = "w\<lparr>current_bubble_label := Some (length (chat_layout w)),
             chat_layout := chat_layout w @ [\<lparr>text_label = take n t, sender = py ''AI''\<rparr>],
             pending_text := t, typing_index := n, typing_timer := True\<rparr>"
  have t: "ticks n (start_typing_animation t w) = Some ?wn"
    using assms(2,3) by (rule ticks_typing)
  have c: "chat_layout (stop_branch ?wn) = chat_layout w @ [\<lparr>text_label = t, sender = py ''AI''\<rparr>]"
    by (auto simp: stop_branch_def Let_def setText_def split: option.splits)
  have "ai_thinking ?wn \<and> typing_timer ?wn \<and>
      chat_layout ?wn = chat_layout w @ [\<lparr>text_label = take n t, sender = py ''AI''\<rparr>] \<and>
      chat_layout (handle_send_or_stop ?wn) =
        chat_layout w @ [\<lparr>text_label = t, sender = py ''AI''\<rparr>] \<and>
      \<not> ai_thinking (handle_send_or_stop ?wn) \<and>
      \<not> typing_timer (handle_send_or_stop ?wn) \<and>
      started (handle_send_or_stop ?wn) = started w \<and>
      input_line (handle_send_or_stop ?wn) = input_line w"
    using assms(1) c by (simp add: handle_send_or_stop_def stop_branch_fields)
  with t show ?thesis by blast
qed

text \<open>The result \<open>hello\<close> after two ticks shows \<open>he\<close>; a stop then shows it whole.\<close>

theorem cancel_after_result_completes_bubble_witness:
  "\<exists>wn. ticks 2 typing_window = Some wn \<and>
      chat_layout wn =
        [\<lparr>text_label = py ''hi'', sender = py ''User''\<rparr>,
         \<lparr>text_label = py ''he'', sender = py ''AI''\<rparr>] \<and>
      ai_thinking wn \<and>
      chat_layout (handle_send_or_stop wn) =
        [\<lparr>text_label = py ''hi'', sender = py ''User''\<rparr>,
         \<lparr>text_label = py ''hello'', sender = py ''AI''\<rparr>] \<and>
      \<not> ai_thinking (handle_send_or_stop wn) \<and>
      \<not> typing_timer (handle_send_or_stop wn) \<and>
      started (handle_send_or_stop wn) = [py ''hi''] \<and>
      input_line (handle_send_or_stop wn) = []"
proof -
  have h: "ai_thinking answered_window" "py ''hello'' \<noteq> []" "2 \<le> length (py ''hello'')"
    by (simp_all add: answered_window_def busy_window_eq py_def)
  have f: "chat_layout answered_window = [\<lparr>text_label = py ''hi'', sender = py ''User''\<rparr>]"
    "started answered_window = [py ''hi'']" "input_line answered_window = []"
    "take 2 (py ''hello'') = py ''he''"
    by (simp_all add: answered_window_def busy_window_eq Bubble_def py_def)
  from cancel_after_result_completes_bubble [OF h] f obtain wn where
    "ticks 2 (start_typing_animation (py ''hello'') answered_window) = Some wn"
    "ai_thinking wn"
    "chat_layout wn =
       [\<lparr>text_label = py ''hi'', sender = py ''User''\<rparr>,
        \<lparr>text_label = py ''he'', sender = py ''AI''\<rparr>]"
    "chat_layout (handle_send_or_stop wn) =
       [\<lparr>text_label = py ''hi'', sender = py ''User''\<rparr>,
        \<lparr>text_label = py ''hello'', sender = py ''AI''\<rparr>]"
    "\<not> ai_thinking (handle_send_or_stop wn)"
    "\<not> typing_timer (handle_send_or_stop wn)"
    "started (handle_send_or_stop wn) = [py ''hi'']"
    "input_line (handle_send_or_stop wn) = []"
    by auto
  then show ?thesis
    unfolding typing_window_def by blast
qed

text \<open>
  C9.  A result with empty content leaves the window idle with the send icon, adds no
  bubble and does not touch the timer.  For a busy window with no animation pending,
  what the window shows after it (bubbles, icon, input line, timer, idle) is what it
  shows after a stop.
\<close>

theorem empty_result_is_silent:
  "\<not> ai_thinking (deliver (EmitResult []) w) \<and>
   send_btn (deliver (EmitResult []) w) = send_icon \<and>
   chat_layout (deliver (EmitResult []) w) = chat_layout w \<and>
   typing_timer (deliver (EmitResult []) w) = typing_timer w \<and>
   (ai_thinking w \<and> settled w \<longrightarrow>
      chat_layout (deliver (EmitResult []) w) = chat_layout (handle_send_or_stop w) \<and>
      send_btn (deliver (EmitResult []) w) = send_btn (handle_send_or_stop w) \<and>
      input_line (deliver (EmitResult []) w) = input_line (handle_send_or_stop w) \<and>
      typing_timer (deliver (EmitResult []) w) = typing_timer (handle_send_or_stop w) \<and>
      ai_thinking (deliver (EmitResult []) w) = ai_thinking (handle_send_or_stop w))"
  by (auto simp: deliver_def start_typing_animation_def handle_send_or_stop_def stop_branch_def
        settled_def Let_def setText_def list_eq_iff_nth_eq nth_list_update split: option.splits)

theorem empty_result_is_silent_witness:
  "chat_layout (deliver (EmitResult []) busy_window) = [Bubble (py ''hi'') (py ''User'')] \<and>
   chat_layout (handle_send_or_stop busy_window) = [Bubble (py ''hi'') (py ''User'')] \<and>
   send_btn (handle_send_or_stop busy_window) = send_icon \<and>
   \<not> typing_timer (handle_send_or_stop busy_window) \<and>
   \<not> ai_thinking (handle_send_or_stop busy_window)"
proof -
  have h: "ai_thinking busy_window \<and> settled busy_window"
    by (simp add: busy_window_eq settled_def)
  have "chat_layout busy_window = [Bubble (py ''hi'') (py ''User'')]" "\<not> typing_timer busy_window"
    by (simp_all add: busy_window_eq)
  with h empty_result_is_silent [of busy_window] show ?thesis
    by metis
qed

end
